theory Spec2Isabelle
  imports Complex_Main
begin

section \<open>JavaScript numbers\<close>

text \<open>
  The server computes remaining times and ETAs with JavaScript numbers, where a
  division by zero does not raise but yields \<open>Infinity\<close> or \<open>NaN\<close>. The model keeps
  these special values and treats every finite number as an exact real (rounding of
  doubles and the sign of zero are left out; every zero is \<open>+0\<close>).
\<close>

datatype jsnum = Fin real | PInf | NInf | NaN

fun js_neg :: "jsnum \<Rightarrow> jsnum" where
  "js_neg (Fin x) = Fin (- x)"
| "js_neg PInf = NInf"
| "js_neg NInf = PInf"
| "js_neg NaN = NaN"

fun js_add :: "jsnum \<Rightarrow> jsnum \<Rightarrow> jsnum" where
  "js_add NaN _ = NaN"
| "js_add _ NaN = NaN"
| "js_add (Fin x) (Fin y) = Fin (x + y)"
| "js_add PInf NInf = NaN"
| "js_add NInf PInf = NaN"
| "js_add PInf _ = PInf"
| "js_add NInf _ = NInf"
| "js_add (Fin x) PInf = PInf"
| "js_add (Fin x) NInf = NInf"

definition js_sub :: "jsnum \<Rightarrow> jsnum \<Rightarrow> jsnum" where
  "js_sub a b = js_add a (js_neg b)"

text \<open>The sign of a number, as far as multiplication and division need it.\<close>

fun js_sign :: "jsnum \<Rightarrow> int" where
  "js_sign (Fin x) = (if x > 0 then 1 else if x < 0 then -1 else 0)"
| "js_sign PInf = 1"
| "js_sign NInf = -1"
| "js_sign NaN = 0"

definition signed_inf :: "int \<Rightarrow> jsnum" where
  "signed_inf sg = (if sg > 0 then PInf else if sg < 0 then NInf else NaN)"

fun js_mul :: "jsnum \<Rightarrow> jsnum \<Rightarrow> jsnum" where
  "js_mul NaN _ = NaN"
| "js_mul _ NaN = NaN"
| "js_mul (Fin x) (Fin y) = Fin (x * y)"
| "js_mul a b = signed_inf (js_sign a * js_sign b)"

fun js_div :: "jsnum \<Rightarrow> jsnum \<Rightarrow> jsnum" where
  "js_div NaN _ = NaN"
| "js_div _ NaN = NaN"
| "js_div (Fin x) (Fin y) = (if y = 0 then signed_inf (js_sign (Fin x)) else Fin (x / y))"
| "js_div (Fin x) _ = Fin 0"
| "js_div a (Fin y) = (if y < 0 then js_neg a else a)"
| "js_div _ _ = NaN"

fun js_lt :: "jsnum \<Rightarrow> jsnum \<Rightarrow> bool" where
  "js_lt NaN _ = False"
| "js_lt _ NaN = False"
| "js_lt (Fin x) (Fin y) = (x < y)"
| "js_lt NInf b = (b \<noteq> NInf)"
| "js_lt a PInf = (a \<noteq> PInf)"
| "js_lt _ _ = False"

definition js_le :: "jsnum \<Rightarrow> jsnum \<Rightarrow> bool" where
  "js_le a b = (a \<noteq> NaN \<and> b \<noteq> NaN \<and> (a = b \<or> js_lt a b))"

text \<open>\<open>Math.max\<close> of two arguments: \<open>NaN\<close> as soon as one argument is.\<close>

definition Math_max :: "jsnum \<Rightarrow> jsnum \<Rightarrow> jsnum" where
  "Math_max a b = (if a = NaN \<or> b = NaN then NaN else if js_lt a b then b else a)"

text \<open>\<open>Math.round\<close>: to the nearest integer, a half going up.\<close>

fun Math_round :: "jsnum \<Rightarrow> jsnum" where
  "Math_round (Fin x) = Fin (of_int \<lfloor>x + 1 / 2\<rfloor>)"
| "Math_round a = a"

text \<open>Truthiness of a number, and \<open>a || b\<close> on numbers.\<close>

fun js_truthy :: "jsnum \<Rightarrow> bool" where
  "js_truthy (Fin x) = (x \<noteq> 0)"
| "js_truthy NaN = False"
| "js_truthy _ = True"

definition js_or :: "jsnum \<Rightarrow> jsnum \<Rightarrow> jsnum" where
  "js_or a b = (if js_truthy a then a else b)"

text \<open>
  \<open>new Date(t).toLocaleTimeString()\<close>. A time value that is not finite, or lies
  beyond 8.64e15 ms, makes an invalid date, whose time string is \<open>"Invalid Date"\<close>.
  A valid date is kept as its time value in whole milliseconds; the locale's
  formatting is not modelled.
\<close>

datatype time_string = LocaleTime int | Invalid_Date

fun toLocaleTimeString :: "jsnum \<Rightarrow> time_string" where
  "toLocaleTimeString (Fin t) =
     (if \<bar>t\<bar> \<le> 8640000000000000
      then LocaleTime (if t \<ge> 0 then \<lfloor>t\<rfloor> else \<lceil>t\<rceil>) else Invalid_Date)"
| "toLocaleTimeString _ = Invalid_Date"

definition divide_by_zero_artifact :: "jsnum \<Rightarrow> bool" where
  "divide_by_zero_artifact a = (a = PInf \<or> a = NInf \<or> a = NaN)"


section \<open>Strings and paths\<close>

text \<open>
  Strings are byte strings; the server's Chinese messages are given by their UTF-8
  bytes. \<open>toLowerCase\<close> maps the ASCII capital letters and keeps every other
  byte, which is JavaScript's result on ASCII strings and on characters that have
  no other case; names with other cased characters are outside the model.
\<close>

definition toLowerCase_char :: "char \<Rightarrow> char" where
  "toLowerCase_char c =
     (let n = (of_char c :: nat) in if 65 \<le> n \<and> n \<le> 90 then char_of (n + 32) else c)"

definition toLowerCase :: "string \<Rightarrow> string" where
  "toLowerCase s = map toLowerCase_char s"

text \<open>
  Node's \<open>path\<close> functions are library code; they are modelled for POSIX paths.
  \<open>last_component\<close> is the part after the last separator, trailing separators
  dropped.
\<close>

definition last_component :: "string \<Rightarrow> string" where
  "last_component p =
     rev (takeWhile (\<lambda>c. c \<noteq> CHR ''/'') (dropWhile (\<lambda>c. c = CHR ''/'') (rev p)))"

text \<open>
  \<open>path.extname\<close>: from the last dot of the last component to its end; empty when
  there is no dot, when the only dot is the component's first character, and for
  the component \<open>..\<close>.
\<close>

definition extname :: "string \<Rightarrow> string" where
  "extname p =
     (let c = last_component p;
          e = rev (takeWhile (\<lambda>x. x \<noteq> CHR ''.'') (rev c))
      in if CHR ''.'' \<notin> set c then []
         else if length e + 1 = length c then []
         else if c = ''..'' then []
         else CHR ''.'' # e)"

text \<open>
  \<open>path.basename(p, ext)\<close>: the last component, without the suffix \<open>ext\<close> when it
  ends with it and is longer than it.
\<close>

definition basename :: "string \<Rightarrow> string \<Rightarrow> string" where
  "basename p ext =
     (let c = last_component p
      in if ext \<noteq> [] \<and> length ext < length c \<and> drop (length c - length ext) c = ext
         then take (length c - length ext) c else c)"

text \<open>\<open>Array.prototype.join\<close> and \<open>String.prototype.split\<close> (at one character).\<close>

fun join :: "string list \<Rightarrow> string \<Rightarrow> string" where
  "join [] sep = []"
| "join [x] sep = x"
| "join (x # xs) sep = x @ sep @ join xs sep"

fun split_at :: "char \<Rightarrow> string \<Rightarrow> string list" where
  "split_at sep [] = [[]]"
| "split_at sep (c # cs) =
     (if c = sep then [] # split_at sep cs
      else (case split_at sep cs of [] \<Rightarrow> [[c]] | seg # segs \<Rightarrow> (c # seg) # segs))"

text \<open>
  \<open>path.normalize\<close>: empty and \<open>.\<close> segments are dropped, a \<open>..\<close> segment removes
  the segment before it, or is kept when there is none and the path is relative
  (\<open>allowAboveRoot\<close>). The segments kept so far are in \<open>acc\<close>, the last one first.
\<close>

fun normalize_segments :: "bool \<Rightarrow> string list \<Rightarrow> string list \<Rightarrow> string list" where
  "normalize_segments allowAboveRoot acc [] = rev acc"
| "normalize_segments allowAboveRoot acc (seg # segs) =
     (if seg = [] \<or> seg = ''.'' then normalize_segments allowAboveRoot acc segs
      else if seg = ''..'' then
        (case acc of
           [] \<Rightarrow>
             normalize_segments allowAboveRoot (if allowAboveRoot then [''..''] else []) segs
         | a # as \<Rightarrow>
             if a = ''..'' then normalize_segments allowAboveRoot (''..'' # acc) segs
             else normalize_segments allowAboveRoot as segs)
      else normalize_segments allowAboveRoot (seg # acc) segs)"

definition path_normalize :: "string \<Rightarrow> string" where
  "path_normalize p =
     (if p = [] then ''.''
      else
        (let isAbsolute = (hd p = CHR ''/'');
             trailingSeparator = (last p = CHR ''/'');
             body = join (normalize_segments (\<not> isAbsolute) [] (split_at CHR ''/'' p)) ''/''
         in if body = []
            then (if isAbsolute then ''/'' else if trailingSeparator then ''./'' else ''.'')
            else (if isAbsolute then ''/'' else []) @ body @
                 (if trailingSeparator then ''/'' else [])))"

text \<open>\<open>path.join\<close> of two parts: the non-empty parts joined by a separator, normalised.\<close>

definition path_join :: "string \<Rightarrow> string \<Rightarrow> string" where
  "path_join a b =
     (if a = [] \<and> b = [] then ''.''
      else if a = [] then path_normalize b
      else if b = [] then path_normalize a
      else path_normalize (a @ ''/'' @ b))"

text \<open>
  The size argument of a fluent-ffmpeg command is checked by the library when
  \<open>size\<close> is called: it takes a percentage (\<open>50%\<close>: one to three digits at a word
  boundary, then the sign), a fixed size (\<open>640x480\<close>), a fixed width (\<open>640x?\<close>) or a
  fixed height (\<open>?x480\<close>), found anywhere in the string, and throws
  \<open>Invalid size specified\<close> for any other string.
\<close>

definition is_digit :: "char \<Rightarrow> bool" where
  "is_digit c = (let n = (of_char c :: nat) in 48 \<le> n \<and> n \<le> 57)"

definition is_word_char :: "char \<Rightarrow> bool" where
  "is_word_char c =
     (let n = (of_char c :: nat)
      in (48 \<le> n \<and> n \<le> 57) \<or> (65 \<le> n \<and> n \<le> 90) \<or> (97 \<le> n \<and> n \<le> 122) \<or> n = 95)"

text \<open>Three characters in a row that satisfy the three tests.\<close>

fun has_triple :: "(char \<Rightarrow> bool) \<Rightarrow> (char \<Rightarrow> bool) \<Rightarrow> (char \<Rightarrow> bool) \<Rightarrow> string \<Rightarrow> bool" where
  "has_triple P Q R (a # b # c # cs) = ((P a \<and> Q b \<and> R c) \<or> has_triple P Q R (b # c # cs))"
| "has_triple P Q R cs = False"

text \<open>One to three digits and then the percent sign, at the head of the string.\<close>

fun percent_here :: "string \<Rightarrow> bool" where
  "percent_here (a # b # cs) =
     (is_digit a \<and>
       (b = CHR ''%'' \<or>
        (is_digit b \<and>
          (case cs of
             [] \<Rightarrow> False
           | c # ds \<Rightarrow>
               c = CHR ''%'' \<or>
               (is_digit c \<and> (case ds of [] \<Rightarrow> False | d # es \<Rightarrow> d = CHR ''%''))))))"
| "percent_here cs = False"

text \<open>\<open>boundary\<close>: the string starts here, or the character before is not a word character.\<close>

fun percent_ratio :: "bool \<Rightarrow> string \<Rightarrow> bool" where
  "percent_ratio boundary [] = False"
| "percent_ratio boundary (c # cs) =
     ((boundary \<and> percent_here (c # cs)) \<or> percent_ratio (\<not> is_word_char c) cs)"

definition valid_size :: "string \<Rightarrow> bool" where
  "valid_size sz =
     (percent_ratio True sz
      \<or> has_triple is_digit (\<lambda>c. c = CHR ''x'') is_digit sz
      \<or> has_triple is_digit (\<lambda>c. c = CHR ''x'') (\<lambda>c. c = CHR ''?'') sz
      \<or> has_triple (\<lambda>c. c = CHR ''?'') (\<lambda>c. c = CHR ''x'') is_digit sz)"

text \<open>The two working directories, relative to the server's own directory.\<close>

definition uploadDir :: string where
  "uploadDir = ''uploads''"

definition outputDir :: string where
  "outputDir = ''output''"

text \<open>The server's message literals, as UTF-8 bytes.\<close>

definition msg_no_file :: string where
  "msg_no_file = [CHR 0xE6, CHR 0xB2, CHR 0xA1, CHR 0xE6, CHR 0x9C, CHR 0x89, CHR 0xE4,
     CHR 0xB8, CHR 0x8A, CHR 0xE4, CHR 0xBC, CHR 0xA0, CHR 0xE6, CHR 0x96, CHR 0x87,
     CHR 0xE4, CHR 0xBB, CHR 0xB6]"

definition msg_conversion_failed :: string where
  "msg_conversion_failed = [CHR 0xE8, CHR 0xA7, CHR 0x86, CHR 0xE9, CHR 0xA2, CHR 0x91,
     CHR 0xE8, CHR 0xBD, CHR 0xAC, CHR 0xE6, CHR 0x8D, CHR 0xA2, CHR 0xE5, CHR 0xA4,
     CHR 0xB1, CHR 0xE8, CHR 0xB4, CHR 0xA5, CHR 0x3A, CHR 0x20]"

definition msg_failed2 :: string where
  "msg_failed2 = [CHR 0xE8, CHR 0xBD, CHR 0xAC, CHR 0xE6, CHR 0x8D, CHR 0xA2, CHR 0xE5,
     CHR 0xA4, CHR 0xB1, CHR 0xE8, CHR 0xB4, CHR 0xA5]"

definition msg_unsupported :: string where
  "msg_unsupported = [CHR 0xE4, CHR 0xB8, CHR 0x8D, CHR 0xE6, CHR 0x94, CHR 0xAF,
     CHR 0xE6, CHR 0x8C, CHR 0x81, CHR 0xE7, CHR 0x9A, CHR 0x84, CHR 0xE6, CHR 0x96,
     CHR 0x87, CHR 0xE4, CHR 0xBB, CHR 0xB6, CHR 0xE6, CHR 0xA0, CHR 0xBC, CHR 0xE5,
     CHR 0xBC, CHR 0x8F, CHR 0x3A, CHR 0x20]"

definition msg_supported :: string where
  "msg_supported = [CHR 0xE3, CHR 0x80, CHR 0x82, CHR 0xE6, CHR 0x94, CHR 0xAF,
     CHR 0xE6, CHR 0x8C, CHR 0x81, CHR 0xE7, CHR 0x9A, CHR 0x84, CHR 0xE6, CHR 0xA0,
     CHR 0xBC, CHR 0xE5, CHR 0xBC, CHR 0x8F, CHR 0x3A, CHR 0x20]"


section \<open>The conversion server (\<open>backend/server.js\<close>)\<close>

text \<open>
  The server answers \<open>POST /convert\<close> by storing the upload, building an ffmpeg
  command and running it; the handlers registered on the command publish progress,
  count the outcome and schedule the deletion of the files. The model covers these
  parts, the line that logs the formats, and the read of the counters. It leaves
  out the download route and the hourly sweep of old files (which only read and
  delete files) and the size limit of the upload.
\<close>

subsection \<open>Data\<close>

record stats =
  totalConverted :: nat
  successfulConversions :: nat
  failedConversions :: nat

text \<open>The uploaded file as multer hands it to the filter.\<close>

record multer_file =
  originalname :: string

text \<open>
  A request to \<open>POST /convert\<close>: the multipart file (if any), the two form fields
  (if present), and the unique suffix that the storage engine draws from the clock
  and the random generator for this upload.
\<close>

record request =
  req_file :: "multer_file option"
  body_inputFormat :: "string option"
  body_outputFormat :: "string option"
  uniqueSuffix :: string

text \<open>
  What has been set on a fluent-ffmpeg command by the calls that the handler makes.
\<close>

record ffmpeg_command =
  cmd_input :: string
  videoCodec :: "string option"
  addOptions :: "string list"
  audioCodec :: "string option"
  size_arg :: "string option"
  toFormat :: "string option"
  cmd_output :: "string option"

text \<open>
  The variables that the handlers of one conversion close over. A job is named by
  its position in the list of started commands.
\<close>

record job =
  inputPath :: string
  inputFormat :: string
  outputFormat :: string
  outputPath :: string
  ffmpegCommand :: ffmpeg_command

text \<open>The progress object that fluent-ffmpeg passes to the \<open>progress\<close> handler.\<close>

record progress =
  percent :: jsnum
  timemark :: string
  currentFps :: jsnum
  frames :: jsnum

text \<open>The payload of the \<open>progress\<close> socket event.\<close>

record progress_data =
  pd_percent :: jsnum
  pd_time :: string
  pd_fps :: jsnum
  pd_remaining :: jsnum
  pd_eta :: time_string

datatype sock_event = Progress_event progress_data | Error_event string

text \<open>
  The JSON bodies: \<open>{success: false, error}\<close>, \<open>{success: true, filename}\<close>, the
  counters, and the second server's \<open>{error}\<close> and \<open>{success: true, outputFile}\<close>.
\<close>

datatype body =
    Failure string
  | Success string
  | Stats_body stats
  | Error_only string
  | Success2 string

text \<open>
  What a request handler does with its response: \<open>res.status(n).json(b)\<close>; or the
  error that reaches the framework, which answers it with status 500: the error
  of the filter for an upload that it refuses, or an exception thrown in the
  handler.
\<close>

datatype reply = Json nat body | Next_error string

text \<open>A timer set by \<open>setTimeout\<close>: its delay and the paths it will unlink.\<close>

record timer =
  delay_ms :: int
  unlink_paths :: "string list"

text \<open>
  The state of the process: the counters, the files persisted in the upload
  directory, the commands that were run, the pending deletion timers, the socket
  events broadcast so far, the calls made on response objects (with the job whose
  handler made the call, if any), and what the handler logged for each conversion
  it began: input path, output path, input format, output format.
\<close>

record server =
  conversionStats :: stats
  uploads :: "string list"
  jobs :: "job list"
  timers :: "timer list"
  emitted :: "sock_event list"
  replies :: "(nat option \<times> reply) list"
  logged :: "(string \<times> string \<times> string \<times> string) list"

definition init :: server where
  "init = \<lparr>conversionStats =
              \<lparr>totalConverted = 0, successfulConversions = 0, failedConversions = 0\<rparr>,
            uploads = [], jobs = [], timers = [], emitted = [], replies = [], logged = []\<rparr>"

subsection \<open>Upload filter\<close>

definition supportedFormats :: "string list" where
  "supportedFormats = [''.mp4'', ''.mkv'', ''.mov'', ''.avi'', ''.flv'', ''.wmv'', ''.ivf'']"

text \<open>\<open>Inr ()\<close> accepts the file, \<open>Inl msg\<close> refuses it with an error.\<close>

definition fileFilter :: "multer_file \<Rightarrow> string + unit" where
  "fileFilter f =
     (let fileExt = toLowerCase (extname (originalname f))
      in if fileExt \<in> set supportedFormats then Inr ()
         else Inl (msg_unsupported @ fileExt @ msg_supported @ join supportedFormats '', ''))"

subsection \<open>\<open>POST /convert\<close>\<close>

definition ffmpeg :: "string \<Rightarrow> ffmpeg_command" where
  "ffmpeg p = \<lparr>cmd_input = p, videoCodec = None, addOptions = [], audioCodec = None,
               size_arg = None, toFormat = None, cmd_output = None\<rparr>"

text \<open>
  The command as the handler builds it, in the order of the source: first the
  codecs, that is the calls up to \<open>audioCodec\<close>.
\<close>

definition command_before_size :: "string \<Rightarrow> string \<Rightarrow> ffmpeg_command" where
  "command_before_size inPath outFormat =
     (let c0 = ffmpeg inPath;
          c1 = (if outFormat = ''ivf''
                then c0\<lparr>videoCodec := Some ''libvpx'',
                        addOptions := addOptions c0 @
                          [''-b:v 1M'', ''-quality good'', ''-cpu-used 0'', ''-deadline best'']\<rparr>
                else if outFormat = ''mp4''
                then c0\<lparr>videoCodec := Some ''libx264'',
                        addOptions := addOptions c0 @
                          [''-preset slow'', ''-crf 22'', ''-pix_fmt yuv420p'']\<rparr>
                else c0)
      in c1\<lparr>audioCodec := Some ''aac''\<rparr>)"

text \<open>The call \<open>size(sz)\<close>: the library throws on a string that it does not take.\<close>

definition size_call :: "string \<Rightarrow> ffmpeg_command \<Rightarrow> string + ffmpeg_command" where
  "size_call sz c =
     (if valid_size sz then Inr (c\<lparr>size_arg := Some sz\<rparr>)
      else Inl (''Invalid size specified: '' @ sz))"

text \<open>
  Then the size and the output path. \<open>Inl\<close> is the exception that ends the handler
  before the listeners are registered and the command is run.
\<close>

definition build_command :: "string \<Rightarrow> string \<Rightarrow> string \<Rightarrow> string + ffmpeg_command" where
  "build_command inPath outFormat outPath =
     (case size_call ''?x?'' (command_before_size inPath outFormat) of
        Inl err \<Rightarrow> Inl err
      | Inr c3 \<Rightarrow> Inr (c3\<lparr>cmd_output := Some outPath\<rparr>))"

text \<open>\<open>req.body.x || d\<close>: the default for an absent or empty field.\<close>

definition field_or :: "string option \<Rightarrow> string \<Rightarrow> string" where
  "field_or v d = (case v of None \<Rightarrow> d | Some x \<Rightarrow> if x = [] then d else x)"

text \<open>
  The upload middleware runs first: it filters the file and, if accepted, stores it
  under the unique suffix and the original extension. The handler then answers 400
  when there is no file. Otherwise it computes the formats and the paths, logs
  them, builds the command and, if that did not throw, registers the listeners and
  runs the command.
\<close>

definition convert :: "server \<Rightarrow> request \<Rightarrow> server" where
  "convert s req =
     (case req_file req of
        None \<Rightarrow> s\<lparr>replies := replies s @ [(None, Json 400 (Failure msg_no_file))]\<rparr>
      | Some f \<Rightarrow>
          (case fileFilter f of
             Inl msg \<Rightarrow> s\<lparr>replies := replies s @ [(None, Next_error msg)]\<rparr>
           | Inr _ \<Rightarrow>
               (let inPath = path_join uploadDir (uniqueSuffix req @ extname (originalname f));
                    inFormat = field_or (body_inputFormat req) ''mp4'';
                    outFormat = field_or (body_outputFormat req) ''ivf'';
                    fileName = basename inPath (extname inPath);
                    outPath = path_join outputDir (fileName @ ''.'' @ outFormat);
                    s1 = s\<lparr>uploads := uploads s @ [inPath],
                           logged := logged s @ [(inPath, outPath, inFormat, outFormat)]\<rparr>
                in case build_command inPath outFormat outPath of
                     Inl err \<Rightarrow> s1\<lparr>replies := replies s1 @ [(None, Next_error err)]\<rparr>
                   | Inr cmd \<Rightarrow>
                       s1\<lparr>jobs := jobs s1 @
                           [\<lparr>inputPath = inPath, inputFormat = inFormat,
                             outputFormat = outFormat, outputPath = outPath,
                             ffmpegCommand = cmd\<rparr>]\<rparr>)))"

subsection \<open>The handlers of a running command\<close>

text \<open>
  The \<open>progress\<close> handler; \<open>now\<close> is the reading of \<open>Date.now()\<close>, in
  milliseconds.
\<close>

definition on_progress :: "server \<Rightarrow> progress \<Rightarrow> nat \<Rightarrow> server" where
  "on_progress s p now =
     (let left = js_sub (Fin 100) (percent p);
          secs = js_div (frames p) (currentFps p)
      in s\<lparr>emitted := emitted s @ [Progress_event
           \<lparr>pd_percent = percent p,
            pd_time = timemark p,
            pd_fps = js_or (currentFps p) (Fin 0),
            pd_remaining = (if js_lt (percent p) (Fin 100)
                            then js_div (js_mul left secs) (Fin 100) else Fin 0),
            pd_eta = toLocaleTimeString
                       (js_add (Fin (real now))
                          (js_div (js_mul (js_mul left secs) (Fin 1000)) (Fin 100)))\<rparr>]\<rparr>)"

definition count_success :: "stats \<Rightarrow> stats" where
  "count_success st = st\<lparr>totalConverted := totalConverted st + 1,
                         successfulConversions := successfulConversions st + 1\<rparr>"

definition count_failure :: "stats \<Rightarrow> stats" where
  "count_failure st = st\<lparr>totalConverted := totalConverted st + 1,
                         failedConversions := failedConversions st + 1\<rparr>"

text \<open>The \<open>end\<close> handler of job \<open>j\<close>, whose closure is \<open>jb\<close>.\<close>

definition on_end :: "server \<Rightarrow> nat \<Rightarrow> job \<Rightarrow> server" where
  "on_end s j jb =
     s\<lparr>conversionStats := count_success (conversionStats s),
       timers := timers s @
         [\<lparr>delay_ms = 10 * 60 * 1000, unlink_paths = [inputPath jb, outputPath jb]\<rparr>],
       replies := replies s @ [(Some j, Json 200 (Success (basename (outputPath jb) [])))]\<rparr>"

text \<open>The \<open>error\<close> handler of job \<open>j\<close>; \<open>m\<close> is \<open>err.message\<close>.\<close>

definition on_error :: "server \<Rightarrow> nat \<Rightarrow> string \<Rightarrow> server" where
  "on_error s j m =
     s\<lparr>conversionStats := count_failure (conversionStats s),
       emitted := emitted s @ [Error_event (msg_conversion_failed @ m)],
       replies := replies s @ [(Some j, Json 500 (Failure (msg_conversion_failed @ m)))]\<rparr>"

subsection \<open>The process as a transition system\<close>

text \<open>
  What can happen to the process: a request arrives, or fluent-ffmpeg calls one of
  the handlers registered on a started command. A callback for a command that was
  never started has no handler to run.
\<close>

datatype event =
    Convert request
  | Get_stats
  | Progress_cb nat progress nat
  | End_cb nat
  | Error_cb nat string

fun step :: "server \<Rightarrow> event \<Rightarrow> server" where
  "step s (Convert req) = convert s req"
| "step s Get_stats =
     s\<lparr>replies := replies s @ [(None, Json 200 (Stats_body (conversionStats s)))]\<rparr>"
| "step s (Progress_cb j p now) = (if j < length (jobs s) then on_progress s p now else s)"
| "step s (End_cb j) = (if j < length (jobs s) then on_end s j (jobs s ! j) else s)"
| "step s (Error_cb j m) = (if j < length (jobs s) then on_error s j m else s)"

definition run :: "server \<Rightarrow> event list \<Rightarrow> server" where
  "run s evs = foldl step s evs"


section \<open>The second server\<close>

text \<open>
  The repository holds a second, simpler server: its upload middleware has a
  destination only (no filter, no size limit), it always produces IVF, and it
  derives the ETA from the wall clock. Its names carry the suffix 2.
\<close>

text \<open>Decimal digits of a number, for \<open>`${Date.now()}.ivf`\<close>.\<close>

fun decimal :: "nat \<Rightarrow> string" where
  "decimal n = (if n < 10 then [char_of (48 + n)]
                else decimal (n div 10) @ [char_of (48 + n mod 10)])"

text \<open>
  A request to the second server: the file (if any), the path under which the
  middleware stored it, the reading of \<open>Date.now()\<close> in the handler, and the two
  format fields that the client sends, which this server never reads.
\<close>

record request2 =
  req_file2 :: "multer_file option"
  file_path :: string
  clock :: nat
  body_inputFormat2 :: "string option"
  body_outputFormat2 :: "string option"

record job2 =
  inputPath2 :: string
  outputFileName :: string
  outputPath2 :: string
  startTime :: nat
  ffmpegCommand2 :: ffmpeg_command

record progress_data2 =
  pd2_percent :: jsnum
  pd2_time :: string
  pd2_fps :: jsnum
  pd2_remainingTime :: jsnum
  pd2_eta :: time_string

datatype sock_event2 =
    ConversionStart
  | ConversionProgress progress_data2
  | ConversionComplete
  | ConversionError string

record server2 =
  conversionStats2 :: stats
  uploads2 :: "string list"
  jobs2 :: "job2 list"
  timers2 :: "timer list"
  emitted2 :: "sock_event2 list"
  replies2 :: "(nat option \<times> reply) list"

definition init2 :: server2 where
  "init2 = \<lparr>conversionStats2 =
               \<lparr>totalConverted = 0, successfulConversions = 0, failedConversions = 0\<rparr>,
             uploads2 = [], jobs2 = [], timers2 = [], emitted2 = [], replies2 = []\<rparr>"

definition build_command2 :: "string \<Rightarrow> string \<Rightarrow> ffmpeg_command" where
  "build_command2 inPath outPath =
     (let c0 = ffmpeg inPath;
          c1 = c0\<lparr>addOptions := addOptions c0 @
                    [''-c:v libvpx'', ''-crf 10'', ''-b:v 2M'', ''-c:a libvorbis'']\<rparr>;
          c2 = c1\<lparr>toFormat := Some ''ivf''\<rparr>
      in c2\<lparr>cmd_output := Some outPath\<rparr>)"

definition convert2 :: "server2 \<Rightarrow> request2 \<Rightarrow> server2" where
  "convert2 s req =
     (case req_file2 req of
        None \<Rightarrow> s\<lparr>replies2 := replies2 s @ [(None, Json 400 (Error_only msg_no_file))]\<rparr>
      | Some f \<Rightarrow>
          (let inPath = file_path req;
               outName = decimal (clock req) @ ''.ivf'';
               outPath = path_join outputDir outName
           in s\<lparr>uploads2 := uploads2 s @ [inPath],
                jobs2 := jobs2 s @
                  [\<lparr>inputPath2 = inPath, outputFileName = outName, outputPath2 = outPath,
                    startTime = clock req,
                    ffmpegCommand2 = build_command2 inPath outPath\<rparr>]\<rparr>))"

definition on_start2 :: "server2 \<Rightarrow> server2" where
  "on_start2 s = s\<lparr>emitted2 := emitted2 s @ [ConversionStart]\<rparr>"

text \<open>
  The \<open>progress\<close> handler of the second server; \<open>now\<close> is the reading of
  \<open>Date.now()\<close>, \<open>jb\<close> the closure of the job.
\<close>

definition progress_data2_of :: "job2 \<Rightarrow> progress \<Rightarrow> nat \<Rightarrow> progress_data2" where
  "progress_data2_of jb p now =
     (let percent' = js_div (Math_round (js_mul (percent p) (Fin 100))) (Fin 100);
          time = timemark p;
          fps = js_or (Math_round (currentFps p)) (Fin 0);
          elapsedTime = js_div (Fin (real now - real (startTime jb))) (Fin 1000);
          estimatedTotalTime = js_div elapsedTime (js_div percent' (Fin 100));
          remainingTime = Math_max (Fin 0) (js_sub estimatedTotalTime elapsedTime);
          etaTime = js_add (Fin (real now)) (js_mul remainingTime (Fin 1000))
      in \<lparr>pd2_percent = js_or percent' (Fin 0),
          pd2_time = (if time = [] then ''00:00:00'' else time),
          pd2_fps = fps,
          pd2_remainingTime = Math_round remainingTime,
          pd2_eta = toLocaleTimeString etaTime\<rparr>)"

definition on_progress2 :: "server2 \<Rightarrow> job2 \<Rightarrow> progress \<Rightarrow> nat \<Rightarrow> server2" where
  "on_progress2 s jb p now =
     s\<lparr>emitted2 := emitted2 s @ [ConversionProgress (progress_data2_of jb p now)]\<rparr>"

text \<open>\<open>cleanupFiles(filePath)\<close>: a timer that unlinks the one path after ten minutes.\<close>

definition cleanupFiles2 :: "string \<Rightarrow> timer" where
  "cleanupFiles2 filePath = \<lparr>delay_ms = 10 * 60 * 1000, unlink_paths = [filePath]\<rparr>"

definition on_end2 :: "server2 \<Rightarrow> nat \<Rightarrow> job2 \<Rightarrow> server2" where
  "on_end2 s j jb =
     s\<lparr>conversionStats2 := count_success (conversionStats2 s),
       emitted2 := emitted2 s @ [ConversionComplete],
       timers2 := timers2 s @ [cleanupFiles2 (inputPath2 jb), cleanupFiles2 (outputPath2 jb)],
       replies2 := replies2 s @ [(Some j, Json 200 (Success2 (outputFileName jb)))]\<rparr>"

definition on_error2 :: "server2 \<Rightarrow> nat \<Rightarrow> server2" where
  "on_error2 s j =
     s\<lparr>conversionStats2 := count_failure (conversionStats2 s),
       emitted2 := emitted2 s @ [ConversionError msg_failed2],
       replies2 := replies2 s @ [(Some j, Json 500 (Error_only msg_failed2))]\<rparr>"

text \<open>The second server as a transition system, like the first.\<close>

datatype event2 =
    Convert2 request2
  | Get_stats2
  | Start_cb2 nat
  | Progress_cb2 nat progress nat
  | End_cb2 nat
  | Error_cb2 nat

fun step2 :: "server2 \<Rightarrow> event2 \<Rightarrow> server2" where
  "step2 s (Convert2 req) = convert2 s req"
| "step2 s Get_stats2 =
     s\<lparr>replies2 := replies2 s @ [(None, Json 200 (Stats_body (conversionStats2 s)))]\<rparr>"
| "step2 s (Start_cb2 j) = (if j < length (jobs2 s) then on_start2 s else s)"
| "step2 s (Progress_cb2 j p now) =
     (if j < length (jobs2 s) then on_progress2 s (jobs2 s ! j) p now else s)"
| "step2 s (End_cb2 j) = (if j < length (jobs2 s) then on_end2 s j (jobs2 s ! j) else s)"
| "step2 s (Error_cb2 j) = (if j < length (jobs2 s) then on_error2 s j else s)"

definition run2 :: "server2 \<Rightarrow> event2 list \<Rightarrow> server2" where
  "run2 s evs = foldl step2 s evs"


section \<open>The client (\<open>frontend/src/App.tsx\<close>)\<close>

text \<open>
  The progress state of the page, and the payload of a \<open>conversionProgress\<close>
  event as the client receives it.
\<close>

record ConversionProgress =
  fe_percent :: real
  fe_time :: string
  fe_fps :: real
  fe_remainingTime :: real
  fe_eta :: string

text \<open>
  The \<open>conversionProgress\<close> listener: the server's 0 to 100 is mapped onto 50 to
  100, and the percent shown never goes back.
\<close>

definition on_conversionProgress :: "ConversionProgress \<Rightarrow> ConversionProgress \<Rightarrow> ConversionProgress" where
  "on_conversionProgress prev data =
     (let mappedPercent = 50 + fe_percent data * 0.5
      in data\<lparr>fe_percent := max (fe_percent prev) mappedPercent\<rparr>)"

text \<open>The percent values shown after each of a sequence of such events.\<close>

fun shown_percents :: "ConversionProgress \<Rightarrow> ConversionProgress list \<Rightarrow> real list" where
  "shown_percents prev [] = []"
| "shown_percents prev (d # ds) =
     fe_percent (on_conversionProgress prev d) # shown_percents (on_conversionProgress prev d) ds"


section \<open>Observations\<close>

text \<open>The percent values of the progress events broadcast so far, in order.\<close>

fun published_percents :: "sock_event list \<Rightarrow> jsnum list" where
  "published_percents [] = []"
| "published_percents (Progress_event d # es) = pd_percent d # published_percents es"
| "published_percents (Error_event m # es) = published_percents es"

fun published_percents2 :: "sock_event2 list \<Rightarrow> jsnum list" where
  "published_percents2 [] = []"
| "published_percents2 (ConversionProgress d # es) = pd2_percent d # published_percents2 es"
| "published_percents2 (e # es) = published_percents2 es"






section \<open>Properties\<close>

text \<open>The defining equations that evaluate a request on concrete data.\<close>

lemmas path_defs = extname_def last_component_def basename_def path_join_def
  path_normalize_def toLowerCase_def toLowerCase_char_def uploadDir_def outputDir_def
  char_of_eq_iff

lemmas size_defs = size_call_def valid_size_def is_digit_def is_word_char_def

lemmas convert_defs = convert_def fileFilter_def supportedFormats_def field_or_def
  build_command_def command_before_size_def ffmpeg_def Let_def

lemmas handler_defs = run_def on_progress_def on_end_def on_error_def count_success_def
  count_failure_def

lemmas server2_defs = run2_def convert2_def build_command2_def on_start2_def on_end2_def
  on_error2_def cleanupFiles2_def count_success_def count_failure_def ffmpeg_def

lemmas progress2_defs = on_progress2_def progress_data2_of_def js_or_def js_sub_def
  Math_max_def signed_inf_def

subsection \<open>The size call of the first server\<close>

text \<open>
  The string \<open>?x?\<close> names neither a width nor a height, so the call throws, whatever
  the command was. Hence the first server ends every accepted upload with this
  error: the file is stored, the formats are logged, and no command is run.
\<close>

lemma size_call_placeholder: "size_call ''?x?'' c = Inl ''Invalid size specified: ?x?''"
  by (simp add: size_defs)

lemma build_command_throws:
  "build_command inPath outFormat outPath = Inl ''Invalid size specified: ?x?''"
  by (simp add: build_command_def size_call_placeholder)

lemma jobs_convert: "jobs (convert s req) = jobs s"
  by (simp add: convert_def build_command_throws Let_def split: option.splits sum.splits)

lemma jobs_step: "jobs (step s e) = jobs s"
  by (cases e) (simp_all add: jobs_convert on_progress_def on_end_def on_error_def Let_def)

lemma run_Cons: "run s (e # es) = run (step s e) es"
  by (simp add: run_def)

lemma jobs_run: "jobs (run s evs) = jobs s"
proof (induction evs arbitrary: s)
  case Nil
  show ?case by (simp add: run_def)
next
  case (Cons e es)
  have "jobs (run s (e # es)) = jobs (step s e)" unfolding run_Cons by (rule Cons.IH)
  then show ?case by (simp only: jobs_step)
qed

lemma first_server_never_starts: "jobs (run init evs) = []"
  by (simp add: jobs_run init_def)

subsection \<open>Requests without a file\<close>

text \<open>
  C10. A convert request that carries no uploaded file is answered with status 400
  and nothing else happens: the counters, the stored uploads, the started commands
  (hence the files that a transcode would write to the output directory), the
  timers and the broadcast events are as before. This holds for both servers.
\<close>

theorem convert_without_file:
  assumes "req_file req = None" and "req_file2 req2 = None"
  shows "replies (convert s req) = replies s @ [(None, Json 400 (Failure msg_no_file))]
       \<and> conversionStats (convert s req) = conversionStats s
       \<and> jobs (convert s req) = jobs s
       \<and> uploads (convert s req) = uploads s
       \<and> timers (convert s req) = timers s
       \<and> emitted (convert s req) = emitted s
       \<and> replies2 (convert2 s2 req2) = replies2 s2 @ [(None, Json 400 (Error_only msg_no_file))]
       \<and> conversionStats2 (convert2 s2 req2) = conversionStats2 s2
       \<and> jobs2 (convert2 s2 req2) = jobs2 s2
       \<and> uploads2 (convert2 s2 req2) = uploads2 s2
       \<and> timers2 (convert2 s2 req2) = timers2 s2
       \<and> emitted2 (convert2 s2 req2) = emitted2 s2"
  using assms by (simp add: convert_def convert2_def)

theorem convert_without_file_witness:
  "req_file \<lparr>req_file = None, body_inputFormat = Some ''mp4'', body_outputFormat = Some ''ivf'',
             uniqueSuffix = ''1700000000000-42''\<rparr> = None
   \<and> req_file2 \<lparr>req_file2 = None, file_path = [], clock = 1700000000000,
              body_inputFormat2 = None, body_outputFormat2 = None\<rparr> = None
   \<and> replies (convert init
         \<lparr>req_file = None, body_inputFormat = Some ''mp4'', body_outputFormat = Some ''ivf'',
          uniqueSuffix = ''1700000000000-42''\<rparr>) = [(None, Json 400 (Failure msg_no_file))]
   \<and> jobs (convert init
         \<lparr>req_file = None, body_inputFormat = Some ''mp4'', body_outputFormat = Some ''ivf'',
          uniqueSuffix = ''1700000000000-42''\<rparr>) = []
   \<and> jobs2 (convert2 init2 \<lparr>req_file2 = None, file_path = [], clock = 1700000000000,
              body_inputFormat2 = None, body_outputFormat2 = None\<rparr>) = []"
proof -
  let ?r = "\<lparr>req_file = None, body_inputFormat = Some ''mp4'', body_outputFormat = Some ''ivf'',
             uniqueSuffix = ''1700000000000-42''\<rparr>"
  let ?r2 = "\<lparr>req_file2 = None, file_path = [], clock = 1700000000000,
              body_inputFormat2 = None, body_outputFormat2 = None\<rparr>"
  have h: "req_file ?r = None" by simp
  have h2: "req_file2 ?r2 = None" by simp
  show ?thesis
    using h h2 convert_without_file [OF h h2, of init init2]
    by (simp add: init_def init2_def)
qed



subsection \<open>Defaults of the format fields\<close>

text \<open>
  C9, evaluated on an accepted upload that comes without the two format fields.
  The handler substitutes the defaults: it logs the input format \<open>mp4\<close> and the
  output format \<open>ivf\<close>, and the command it begins reads the stored upload and
  gets the VP8 encoder. But the size call then throws, so the request ends with
  that error: the upload has been stored, and no command is run.
\<close>

theorem absent_formats_request_fails:
  "logged (convert init
      \<lparr>req_file = Some \<lparr>originalname = ''clip.mp4''\<rparr>, body_inputFormat = None,
      body_outputFormat = None, uniqueSuffix = ''17-5''\<rparr>) = [(''uploads/17-5.mp4'', ''output/17-5.ivf'', ''mp4'', ''ivf'')]
   \<and> cmd_input (command_before_size ''uploads/17-5.mp4'' ''ivf'') = ''uploads/17-5.mp4''
   \<and> videoCodec (command_before_size ''uploads/17-5.mp4'' ''ivf'') = Some ''libvpx''
   \<and> build_command ''uploads/17-5.mp4'' ''ivf'' ''output/17-5.ivf''
       = Inl ''Invalid size specified: ?x?''
   \<and> replies (convert init
      \<lparr>req_file = Some \<lparr>originalname = ''clip.mp4''\<rparr>, body_inputFormat = None,
      body_outputFormat = None, uniqueSuffix = ''17-5''\<rparr>) = [(None, Next_error ''Invalid size specified: ?x?'')]
   \<and> jobs (convert init
      \<lparr>req_file = Some \<lparr>originalname = ''clip.mp4''\<rparr>, body_inputFormat = None,
      body_outputFormat = None, uniqueSuffix = ''17-5''\<rparr>) = []
   \<and> uploads (convert init
      \<lparr>req_file = Some \<lparr>originalname = ''clip.mp4''\<rparr>, body_inputFormat = None,
      body_outputFormat = None, uniqueSuffix = ''17-5''\<rparr>) = [''uploads/17-5.mp4'']"
  by (simp add: convert_defs path_defs size_defs init_def)

subsection \<open>Validation of formats\<close>

text \<open>
  C5, as the claim states it, fails on the second server: a request for the output
  format \<open>webm\<close> is not refused. The transcode is started and writes an IVF file,
  and no reply is given at submission.
\<close>

theorem unknown_output_format_counterexample:
  "''webm'' \<notin> {''ivf'', ''mp4''}
   \<and> body_outputFormat2
      \<lparr>req_file2 = Some \<lparr>originalname = ''clip.mp4''\<rparr>, file_path = ''uploads/3f9a'',
      clock = 1700000000000, body_inputFormat2 = Some ''mp4'',
      body_outputFormat2 = Some ''webm''\<rparr> = Some ''webm''
   \<and> replies2 (convert2 init2
      \<lparr>req_file2 = Some \<lparr>originalname = ''clip.mp4''\<rparr>, file_path = ''uploads/3f9a'',
      clock = 1700000000000, body_inputFormat2 = Some ''mp4'',
      body_outputFormat2 = Some ''webm''\<rparr>) = []
   \<and> map outputPath2 (jobs2 (convert2 init2
      \<lparr>req_file2 = Some \<lparr>originalname = ''clip.mp4''\<rparr>, file_path = ''uploads/3f9a'',
      clock = 1700000000000, body_inputFormat2 = Some ''mp4'',
      body_outputFormat2 = Some ''webm''\<rparr>)) = [''output/1700000000000.ivf'']
   \<and> map (\<lambda>jb. toFormat (ffmpegCommand2 jb)) (jobs2 (convert2 init2
      \<lparr>req_file2 = Some \<lparr>originalname = ''clip.mp4''\<rparr>, file_path = ''uploads/3f9a'',
      clock = 1700000000000, body_inputFormat2 = Some ''mp4'',
      body_outputFormat2 = Some ''webm''\<rparr>)) = [Some ''ivf'']"
  by (simp add: server2_defs path_defs init2_def Let_def)

text \<open>
  C5, amended. Neither server checks the requested output format, and there is no
  error for an unknown one. The second server does not read the field: what it
  does with a request is the same for every requested format, and every request
  with a file starts a transcode to IVF. On the first server the reply to a
  request and the files stored do not depend on the requested format, and for a
  format other than \<open>ivf\<close> and \<open>mp4\<close> the command is given no video codec and no
  encoder options.
\<close>

theorem output_format_unchecked:
  assumes "req_file2 req2 = Some f2" and "fmt \<noteq> ''ivf''" and "fmt \<noteq> ''mp4''"
  shows "convert2 s2 (req2\<lparr>body_outputFormat2 := x\<rparr>) = convert2 s2 req2
       \<and> replies2 (convert2 s2 req2) = replies2 s2
       \<and> length (jobs2 (convert2 s2 req2)) = Suc (length (jobs2 s2))
       \<and> toFormat (ffmpegCommand2 (last (jobs2 (convert2 s2 req2)))) = Some ''ivf''
       \<and> outputFileName (last (jobs2 (convert2 s2 req2))) = decimal (clock req2) @ ''.ivf''
       \<and> replies (convert s (req\<lparr>body_outputFormat := x\<rparr>)) =
           replies (convert s (req\<lparr>body_outputFormat := y\<rparr>))
       \<and> uploads (convert s (req\<lparr>body_outputFormat := x\<rparr>)) =
           uploads (convert s (req\<lparr>body_outputFormat := y\<rparr>))
       \<and> videoCodec (command_before_size inPath fmt) = None
       \<and> addOptions (command_before_size inPath fmt) = []"
proof (intro conjI)
  show "convert2 s2 (req2\<lparr>body_outputFormat2 := x\<rparr>) = convert2 s2 req2"
    by (simp add: convert2_def Let_def split: option.splits)
  show "replies2 (convert2 s2 req2) = replies2 s2"
    using assms(1) by (simp add: convert2_def Let_def)
  show "length (jobs2 (convert2 s2 req2)) = Suc (length (jobs2 s2))"
    using assms(1) by (simp add: convert2_def Let_def)
  show "toFormat (ffmpegCommand2 (last (jobs2 (convert2 s2 req2)))) = Some ''ivf''"
    using assms(1) by (simp add: convert2_def build_command2_def Let_def)
  show "outputFileName (last (jobs2 (convert2 s2 req2))) = decimal (clock req2) @ ''.ivf''"
    using assms(1) by (simp add: convert2_def Let_def)
  show "replies (convert s (req\<lparr>body_outputFormat := x\<rparr>)) =
          replies (convert s (req\<lparr>body_outputFormat := y\<rparr>))"
    by (simp add: convert_def build_command_throws Let_def split: option.splits sum.splits)
  show "uploads (convert s (req\<lparr>body_outputFormat := x\<rparr>)) =
          uploads (convert s (req\<lparr>body_outputFormat := y\<rparr>))"
    by (simp add: convert_def build_command_throws Let_def split: option.splits sum.splits)
  show "videoCodec (command_before_size inPath fmt) = None"
    using assms(2,3) by (simp add: command_before_size_def ffmpeg_def Let_def)
  show "addOptions (command_before_size inPath fmt) = []"
    using assms(2,3) by (simp add: command_before_size_def ffmpeg_def Let_def)
qed

theorem output_format_unchecked_witness:
  "req_file2
      \<lparr>req_file2 = Some \<lparr>originalname = ''clip.mp4''\<rparr>, file_path = ''uploads/3f9a'',
      clock = 1700000000000, body_inputFormat2 = Some ''mp4'',
      body_outputFormat2 = Some ''webm''\<rparr> = Some \<lparr>originalname = ''clip.mp4''\<rparr>
   \<and> ''webm'' \<noteq> ''ivf'' \<and> ''webm'' \<noteq> ''mp4''
   \<and> toFormat (ffmpegCommand2 (last (jobs2 (convert2 init2
      \<lparr>req_file2 = Some \<lparr>originalname = ''clip.mp4''\<rparr>, file_path = ''uploads/3f9a'',
      clock = 1700000000000, body_inputFormat2 = Some ''mp4'',
      body_outputFormat2 = Some ''webm''\<rparr>)))) = Some ''ivf''
   \<and> outputFileName (last (jobs2 (convert2 init2
      \<lparr>req_file2 = Some \<lparr>originalname = ''clip.mp4''\<rparr>, file_path = ''uploads/3f9a'',
      clock = 1700000000000, body_inputFormat2 = Some ''mp4'',
      body_outputFormat2 = Some ''webm''\<rparr>))) = ''1700000000000.ivf''
   \<and> videoCodec (command_before_size ''uploads/17-5.mp4'' ''webm'') = None"
proof -
  let ?r2 = "\<lparr>req_file2 = Some \<lparr>originalname = ''clip.mp4''\<rparr>, file_path = ''uploads/3f9a'',
      clock = 1700000000000, body_inputFormat2 = Some ''mp4'',
      body_outputFormat2 = Some ''webm''\<rparr>"
  have h1: "req_file2 ?r2 = Some \<lparr>originalname = ''clip.mp4''\<rparr>" by simp
  have h2: "''webm'' \<noteq> ''ivf''" and h3: "''webm'' \<noteq> ''mp4''" by simp_all
  have d: "decimal (clock ?r2) = ''1700000000000''" by (simp add: char_of_eq_iff)
  from output_format_unchecked [OF h1 h2 h3, of init2]
  have t: "toFormat (ffmpegCommand2 (last (jobs2 (convert2 init2 ?r2)))) = Some ''ivf''"
    and n: "outputFileName (last (jobs2 (convert2 init2 ?r2))) = decimal (clock ?r2) @ ''.ivf''"
    and v: "videoCodec (command_before_size ''uploads/17-5.mp4'' ''webm'') = None"
    by blast+
  have n': "outputFileName (last (jobs2 (convert2 init2 ?r2))) = ''1700000000000.ivf''"
    by (simp only: n d) simp
  show ?thesis using h1 h2 h3 t n' v by (intro conjI)
qed

text \<open>
  C6, as the claim states it, fails on the second server, whose upload middleware
  has no filter: a file named \<open>notes.txt\<close> is stored and its transcode is started.
\<close>

theorem unfiltered_upload_counterexample:
  "toLowerCase (extname ''notes.txt'') \<notin> set supportedFormats
   \<and> uploads2 (convert2 init2
         \<lparr>req_file2 = Some \<lparr>originalname = ''notes.txt''\<rparr>, file_path = ''uploads/3f9a'',
          clock = 1700000000000, body_inputFormat2 = None,
          body_outputFormat2 = None\<rparr>) = [''uploads/3f9a'']
   \<and> map inputPath2 (jobs2 (convert2 init2
         \<lparr>req_file2 = Some \<lparr>originalname = ''notes.txt''\<rparr>, file_path = ''uploads/3f9a'',
          clock = 1700000000000, body_inputFormat2 = None,
          body_outputFormat2 = None\<rparr>)) = [''uploads/3f9a'']
   \<and> replies2 (convert2 init2
         \<lparr>req_file2 = Some \<lparr>originalname = ''notes.txt''\<rparr>, file_path = ''uploads/3f9a'',
          clock = 1700000000000, body_inputFormat2 = None,
          body_outputFormat2 = None\<rparr>) = []"
  by (simp add: server2_defs path_defs init2_def supportedFormats_def Let_def)

text \<open>
  C6, amended. On the first server, whose upload middleware has the file filter,
  every upload whose extension, in lower case, is not one of the supported
  extensions is refused with the filter's error: nothing is stored in the upload
  directory, no command is built, and the counters are unchanged. The second
  server has no such check: it stores every uploaded file and starts its
  transcode.
\<close>

theorem filtered_upload_rejected:
  assumes "req_file req = Some f"
    and "toLowerCase (extname (originalname f)) \<notin> set supportedFormats"
    and "req_file2 req2 = Some f2"
  shows "replies (convert s req) = replies s @
           [(None, Next_error (msg_unsupported @ toLowerCase (extname (originalname f)) @
                               msg_supported @ join supportedFormats '', ''))]
       \<and> uploads (convert s req) = uploads s
       \<and> jobs (convert s req) = jobs s
       \<and> conversionStats (convert s req) = conversionStats s
       \<and> timers (convert s req) = timers s
       \<and> uploads2 (convert2 s2 req2) = uploads2 s2 @ [file_path req2]
       \<and> length (jobs2 (convert2 s2 req2)) = Suc (length (jobs2 s2))
       \<and> replies2 (convert2 s2 req2) = replies2 s2"
  using assms by (simp add: convert_def fileFilter_def convert2_def Let_def)

theorem filtered_upload_rejected_witness:
  "req_file \<lparr>req_file = Some \<lparr>originalname = ''notes.TXT''\<rparr>, body_inputFormat = Some ''mp4'',
             body_outputFormat = Some ''ivf'', uniqueSuffix = ''17-5''\<rparr>
     = Some \<lparr>originalname = ''notes.TXT''\<rparr>
   \<and> toLowerCase (extname (originalname \<lparr>originalname = ''notes.TXT''\<rparr>)) \<notin> set supportedFormats
   \<and> req_file2 \<lparr>req_file2 = Some \<lparr>originalname = ''notes.TXT''\<rparr>, file_path = ''uploads/3f9a'',
          clock = 1700000000000, body_inputFormat2 = None,
          body_outputFormat2 = None\<rparr> = Some \<lparr>originalname = ''notes.TXT''\<rparr>
   \<and> uploads (convert init
         \<lparr>req_file = Some \<lparr>originalname = ''notes.TXT''\<rparr>, body_inputFormat = Some ''mp4'',
          body_outputFormat = Some ''ivf'', uniqueSuffix = ''17-5''\<rparr>) = []
   \<and> jobs (convert init
         \<lparr>req_file = Some \<lparr>originalname = ''notes.TXT''\<rparr>, body_inputFormat = Some ''mp4'',
          body_outputFormat = Some ''ivf'', uniqueSuffix = ''17-5''\<rparr>) = []
   \<and> uploads2 (convert2 init2
         \<lparr>req_file2 = Some \<lparr>originalname = ''notes.TXT''\<rparr>, file_path = ''uploads/3f9a'',
          clock = 1700000000000, body_inputFormat2 = None,
          body_outputFormat2 = None\<rparr>) = [''uploads/3f9a'']"
proof -
  let ?f = "\<lparr>originalname = ''notes.TXT''\<rparr>"
  let ?r = "\<lparr>req_file = Some ?f, body_inputFormat = Some ''mp4'',
             body_outputFormat = Some ''ivf'', uniqueSuffix = ''17-5''\<rparr>"
  let ?r2 = "\<lparr>req_file2 = Some ?f, file_path = ''uploads/3f9a'', clock = 1700000000000, body_inputFormat2 = None,
          body_outputFormat2 = None\<rparr>"
  have h1: "req_file ?r = Some ?f" by simp
  have h2: "toLowerCase (extname (originalname ?f)) \<notin> set supportedFormats"
    by (simp add: supportedFormats_def path_defs)
  have h3: "req_file2 ?r2 = Some ?f" by simp
  show ?thesis
    using h1 h2 h3 filtered_upload_rejected [OF h1 h2 h3, of init init2]
    by (simp add: init_def init2_def)
qed



subsection \<open>The counters\<close>







text \<open>The same for the second server.\<close>

lemma conversionStats2_convert2: "conversionStats2 (convert2 s req) = conversionStats2 s"
  by (simp add: convert2_def Let_def split: option.splits)










text \<open>
  C2, as the claim states it, fails: on the second server, when the \<open>end\<close> callback
  of a job arrives a second time, the counters go from 1 to 2 and the deletion of
  the same two files is scheduled again.
\<close>

theorem second_terminal_callback_counterexample:
  "conversionStats2 (run2 init2
      [Convert2 \<lparr>req_file2 = Some \<lparr>originalname = ''a.mp4''\<rparr>, file_path = ''uploads/3f9a'',
                 clock = 1000, body_inputFormat2 = None, body_outputFormat2 = None\<rparr>,
       End_cb2 0])
     = \<lparr>totalConverted = 1, successfulConversions = 1, failedConversions = 0\<rparr>
   \<and> conversionStats2 (run2 init2
      [Convert2 \<lparr>req_file2 = Some \<lparr>originalname = ''a.mp4''\<rparr>, file_path = ''uploads/3f9a'',
                 clock = 1000, body_inputFormat2 = None, body_outputFormat2 = None\<rparr>,
       End_cb2 0, End_cb2 0])
     = \<lparr>totalConverted = 2, successfulConversions = 2, failedConversions = 0\<rparr>
   \<and> map unlink_paths (timers2 (run2 init2
      [Convert2 \<lparr>req_file2 = Some \<lparr>originalname = ''a.mp4''\<rparr>, file_path = ''uploads/3f9a'',
                 clock = 1000, body_inputFormat2 = None, body_outputFormat2 = None\<rparr>,
       End_cb2 0, End_cb2 0]))
     = [[''uploads/3f9a''], [''output/1000.ivf''], [''uploads/3f9a''], [''output/1000.ivf'']]"
  by (simp add: server2_defs path_defs init2_def Let_def)

text \<open>
  C2, amended. The terminal handlers keep no record of a job having ended, so they
  are not idempotent: each \<open>end\<close> or \<open>error\<close> callback that arrives for a started
  job counts once more, whatever came before, and each \<open>end\<close> callback schedules
  the deletion of the job's files once more. Two terminal callbacks for one job
  raise the total by two. This is so for the handlers of both servers. A job is
  counted once only because the engine calls back once.
\<close>

theorem terminal_callbacks_counted_each_time:
  assumes "j < length (jobs2 s2)"
  shows "conversionStats2 (step2 s2 (End_cb2 j)) = count_success (conversionStats2 s2)
       \<and> timers2 (step2 s2 (End_cb2 j)) = timers2 s2 @
           [cleanupFiles2 (inputPath2 (jobs2 s2 ! j)), cleanupFiles2 (outputPath2 (jobs2 s2 ! j))]
       \<and> conversionStats2 (step2 s2 (Error_cb2 j)) = count_failure (conversionStats2 s2)
       \<and> jobs2 (step2 s2 (End_cb2 j)) = jobs2 s2
       \<and> jobs2 (step2 s2 (Error_cb2 j)) = jobs2 s2
       \<and> totalConverted (conversionStats2 (step2 (step2 s2 (End_cb2 j)) (End_cb2 j))) =
           totalConverted (conversionStats2 s2) + 2
       \<and> length (timers2 (step2 (step2 s2 (End_cb2 j)) (End_cb2 j))) = length (timers2 s2) + 4
       \<and> totalConverted (conversionStats2 (step2 (step2 s2 (Error_cb2 j)) (Error_cb2 j))) =
           totalConverted (conversionStats2 s2) + 2
       \<and> conversionStats (on_end s k jb) = count_success (conversionStats s)
       \<and> timers (on_end s k jb) = timers s @
           [\<lparr>delay_ms = 600000, unlink_paths = [inputPath jb, outputPath jb]\<rparr>]
       \<and> conversionStats (on_error s k m) = count_failure (conversionStats s)
       \<and> totalConverted (conversionStats (on_end (on_end s k jb) k jb)) =
           totalConverted (conversionStats s) + 2
       \<and> length (timers (on_end (on_end s k jb) k jb)) = length (timers s) + 2
       \<and> totalConverted (conversionStats (on_error (on_error s k m) k m')) =
           totalConverted (conversionStats s) + 2"
  using assms
  by (simp add: on_end2_def on_error2_def on_end_def on_error_def count_success_def
      count_failure_def)

theorem terminal_callbacks_counted_each_time_witness:
  "(0::nat) < length (jobs2 (convert2 init2
       \<lparr>req_file2 = Some \<lparr>originalname = ''a.mp4''\<rparr>, file_path = ''uploads/3f9a'',
                 clock = 1000, body_inputFormat2 = None, body_outputFormat2 = None\<rparr>))
   \<and> totalConverted (conversionStats2 (step2 (step2 (convert2 init2
       \<lparr>req_file2 = Some \<lparr>originalname = ''a.mp4''\<rparr>, file_path = ''uploads/3f9a'',
                 clock = 1000, body_inputFormat2 = None, body_outputFormat2 = None\<rparr>) (End_cb2 0)) (End_cb2 0))) = 2"
proof -
  let ?s = "convert2 init2
       \<lparr>req_file2 = Some \<lparr>originalname = ''a.mp4''\<rparr>, file_path = ''uploads/3f9a'',
                 clock = 1000, body_inputFormat2 = None, body_outputFormat2 = None\<rparr>"
  have h: "0 < length (jobs2 ?s)"
    by (simp add: convert2_def init2_def Let_def)
  have z: "totalConverted (conversionStats2 ?s) = 0"
    by (simp add: conversionStats2_convert2 init2_def)
  have t: "totalConverted (conversionStats2 (step2 (step2 ?s (End_cb2 0)) (End_cb2 0))) =
           totalConverted (conversionStats2 ?s) + 2"
    using terminal_callbacks_counted_each_time [OF h] by blast
  have r: "totalConverted (conversionStats2 (step2 (step2 ?s (End_cb2 0)) (End_cb2 0))) = 2"
    by (simp only: t z)
  show ?thesis by (rule conjI [OF h r])
qed

subsection \<open>Failure of a transcode\<close>

text \<open>
  C3, evaluated on a failing transcode. On the second server the \<open>error\<close> handler
  counts the failure, broadcasts a fixed text and answers 500, but it schedules no
  deletion: the stored input stays in the upload directory with no timer pending
  for it, whereas the \<open>end\<close> handler of the same job would have scheduled the
  deletion of the input and of the output. The \<open>error\<close> handler of the first
  server counts the failure, broadcasts the error with the engine's message and
  answers 500 without a file name, and it sets no timer either, unlike its \<open>end\<close>
  handler. A request that the first server ends at the size call also leaves its
  stored upload with no timer.
\<close>

theorem failed_job_input_not_scheduled:
  "conversionStats2 (run2 init2
      [Convert2 \<lparr>req_file2 = Some \<lparr>originalname = ''a.mp4''\<rparr>, file_path = ''uploads/3f9a'',
                 clock = 1000, body_inputFormat2 = None, body_outputFormat2 = None\<rparr>,
       Error_cb2 0])
     = \<lparr>totalConverted = 1, successfulConversions = 0, failedConversions = 1\<rparr>
   \<and> emitted2 (run2 init2
      [Convert2 \<lparr>req_file2 = Some \<lparr>originalname = ''a.mp4''\<rparr>, file_path = ''uploads/3f9a'',
                 clock = 1000, body_inputFormat2 = None, body_outputFormat2 = None\<rparr>,
       Error_cb2 0]) = [ConversionError msg_failed2]
   \<and> replies2 (run2 init2
      [Convert2 \<lparr>req_file2 = Some \<lparr>originalname = ''a.mp4''\<rparr>, file_path = ''uploads/3f9a'',
                 clock = 1000, body_inputFormat2 = None, body_outputFormat2 = None\<rparr>,
       Error_cb2 0]) = [(Some 0, Json 500 (Error_only msg_failed2))]
   \<and> uploads2 (run2 init2
      [Convert2 \<lparr>req_file2 = Some \<lparr>originalname = ''a.mp4''\<rparr>, file_path = ''uploads/3f9a'',
                 clock = 1000, body_inputFormat2 = None, body_outputFormat2 = None\<rparr>,
       Error_cb2 0]) = [''uploads/3f9a'']
   \<and> timers2 (run2 init2
      [Convert2 \<lparr>req_file2 = Some \<lparr>originalname = ''a.mp4''\<rparr>, file_path = ''uploads/3f9a'',
                 clock = 1000, body_inputFormat2 = None, body_outputFormat2 = None\<rparr>,
       Error_cb2 0]) = []
   \<and> map unlink_paths (timers2 (run2 init2
      [Convert2 \<lparr>req_file2 = Some \<lparr>originalname = ''a.mp4''\<rparr>, file_path = ''uploads/3f9a'',
                 clock = 1000, body_inputFormat2 = None, body_outputFormat2 = None\<rparr>,
       End_cb2 0])) = [[''uploads/3f9a''], [''output/1000.ivf'']]
   \<and> conversionStats (on_error init 0 ''boom'')
     = \<lparr>totalConverted = 1, successfulConversions = 0, failedConversions = 1\<rparr>
   \<and> emitted (on_error init 0 ''boom'') = [Error_event (msg_conversion_failed @ ''boom'')]
   \<and> replies (on_error init 0 ''boom'')
     = [(Some 0, Json 500 (Failure (msg_conversion_failed @ ''boom'')))]
   \<and> timers (on_error init 0 ''boom'') = []
   \<and> timers (on_end init 0
        \<lparr>inputPath = ''uploads/17-5.mp4'', inputFormat = ''mp4'', outputFormat = ''ivf'',
         outputPath = ''output/17-5.ivf'',
         ffmpegCommand = command_before_size ''uploads/17-5.mp4'' ''ivf''\<rparr>)
     = [\<lparr>delay_ms = 600000, unlink_paths = [''uploads/17-5.mp4'', ''output/17-5.ivf'']\<rparr>]
   \<and> uploads (convert init
      \<lparr>req_file = Some \<lparr>originalname = ''clip.mp4''\<rparr>, body_inputFormat = None,
      body_outputFormat = None, uniqueSuffix = ''17-5''\<rparr>) = [''uploads/17-5.mp4'']
   \<and> timers (convert init
      \<lparr>req_file = Some \<lparr>originalname = ''clip.mp4''\<rparr>, body_inputFormat = None,
      body_outputFormat = None, uniqueSuffix = ''17-5''\<rparr>) = []"
  by (simp add: server2_defs path_defs handler_defs convert_defs size_defs init_def init2_def)

subsection \<open>The transcode command\<close>

text \<open>
  C7, evaluated on the commands that the servers build. The first server sets the
  audio codec \<open>aac\<close> and the second passes \<open>-c:a libvorbis\<close>; neither asks for the
  stream copy, so the audio is encoded anew. For the size the first server passes
  \<open>?x?\<close>, on which the call throws; the second sets no size.
\<close>

theorem audio_is_reencoded:
  "audioCodec (command_before_size inPath outFormat) = Some ''aac''
   \<and> audioCodec (command_before_size inPath outFormat) \<noteq> Some ''copy''
   \<and> build_command inPath outFormat outPath = Inl ''Invalid size specified: ?x?''
   \<and> ''-c:a libvorbis'' \<in> set (addOptions (build_command2 inPath outPath))
   \<and> ''-c:a copy'' \<notin> set (addOptions (build_command2 inPath outPath))
   \<and> size_arg (build_command2 inPath outPath) = None"
  by (simp add: command_before_size_def build_command_throws build_command2_def ffmpeg_def
      Let_def)

subsection \<open>Progress events\<close>

text \<open>
  C8, evaluated on a progress event with percent 0. The second server, one second
  after the start, divides the elapsed time by zero: it publishes the remaining
  time \<open>Infinity\<close> and the ETA of an invalid date. The progress handler of the
  first server, at percent 0 with no frame encoded yet, divides zero frames by
  zero frames per second: it publishes the remaining time \<open>NaN\<close> and the ETA of an
  invalid date.
\<close>

theorem zero_percent_publishes_artifact:
  "pd2_remainingTime (progress_data2_of
      \<lparr>inputPath2 = ''uploads/3f9a'', outputFileName = ''1000.ivf'',
       outputPath2 = ''output/1000.ivf'', startTime = 1000,
       ffmpegCommand2 = build_command2 ''uploads/3f9a'' ''output/1000.ivf''\<rparr>
      \<lparr>percent = Fin 0, timemark = ''00:00:00.00'', currentFps = Fin 0, frames = Fin 0\<rparr>
      2000) = PInf
   \<and> pd2_eta (progress_data2_of
      \<lparr>inputPath2 = ''uploads/3f9a'', outputFileName = ''1000.ivf'',
       outputPath2 = ''output/1000.ivf'', startTime = 1000,
       ffmpegCommand2 = build_command2 ''uploads/3f9a'' ''output/1000.ivf''\<rparr>
      \<lparr>percent = Fin 0, timemark = ''00:00:00.00'', currentFps = Fin 0, frames = Fin 0\<rparr>
      2000) = Invalid_Date
   \<and> emitted (on_progress init
      \<lparr>percent = Fin 0, timemark = ''00:00:00.00'', currentFps = Fin 0, frames = Fin 0\<rparr> 2000)
     = [Progress_event \<lparr>pd_percent = Fin 0, pd_time = ''00:00:00.00'', pd_fps = Fin 0,
                        pd_remaining = NaN, pd_eta = Invalid_Date\<rparr>]"
  by (simp add: progress2_defs on_progress_def init_def Let_def)

text \<open>
  On the second server this is so for every progress event with percent 0 that
  does not precede the start of its job.
\<close>

lemma zero_percent_always_artifact2:
  assumes "percent p = Fin 0" and "startTime jb \<le> now"
  shows "divide_by_zero_artifact (pd2_remainingTime (progress_data2_of jb p now))
       \<and> pd2_eta (progress_data2_of jb p now) = Invalid_Date"
  using assms
  by (simp add: progress2_defs divide_by_zero_artifact_def Let_def)

lemma published_percents_append:
  "published_percents (es @ es') = published_percents es @ published_percents es'"
  by (induction es rule: published_percents.induct) simp_all

lemma published_percents2_append:
  "published_percents2 (es @ es') = published_percents2 es @ published_percents2 es'"
  by (induction es rule: published_percents2.induct) simp_all

lemma shown_percents_sorted: "sorted (fe_percent prev # shown_percents prev ds)"
proof (induction ds arbitrary: prev)
  case Nil
  show ?case by simp
next
  case (Cons d ds)
  let ?next = "on_conversionProgress prev d"
  have step: "fe_percent prev \<le> fe_percent ?next"
    by (simp add: on_conversionProgress_def)
  have rest: "sorted (fe_percent ?next # shown_percents ?next ds)" by (rule Cons.IH)
  have "\<forall>x \<in> set (shown_percents ?next ds). fe_percent ?next \<le> x" using rest by simp
  with step have "\<forall>x \<in> set (shown_percents ?next ds). fe_percent prev \<le> x" by auto
  with step rest show ?case by simp
qed

text \<open>
  C1, as the claim states it, fails: when the engine reports 80 and then 60 for a
  job of the second server, the server publishes 80 and then 60. The progress
  handler of the first server does the same.
\<close>

theorem published_percent_counterexample:
  "published_percents2 (emitted2 (run2 init2
      [Convert2 \<lparr>req_file2 = Some \<lparr>originalname = ''a.mp4''\<rparr>, file_path = ''uploads/3f9a'',
                 clock = 1000, body_inputFormat2 = None, body_outputFormat2 = None\<rparr>,
       Progress_cb2 0 \<lparr>percent = Fin 80, timemark = ''00:00:08.00'', currentFps = Fin 25,
                       frames = Fin 200\<rparr> 9000,
       Progress_cb2 0 \<lparr>percent = Fin 60, timemark = ''00:00:08.10'', currentFps = Fin 25,
                       frames = Fin 202\<rparr> 9100])) = [Fin 80, Fin 60]
   \<and> \<not> sorted_wrt js_le [Fin 80, Fin 60]
   \<and> published_percents (emitted (on_progress (on_progress init
        \<lparr>percent = Fin 80, timemark = ''00:00:08.00'', currentFps = Fin 25,
         frames = Fin 200\<rparr> 9000)
        \<lparr>percent = Fin 60, timemark = ''00:00:08.10'', currentFps = Fin 25,
         frames = Fin 202\<rparr> 9100)) = [Fin 80, Fin 60]"
  by (simp add: server2_defs path_defs handler_defs progress2_defs init_def init2_def
      js_le_def Let_def)

text \<open>
  C1, amended. The servers do not clamp: each progress event is published with the
  percent that the engine reported for it (on the second server rounded to two
  decimals, and 0 for a value that is not a number), whatever was published
  before. The clamp is in the client: on each \<open>conversionProgress\<close> event it shows
  the larger of the percent shown before and 50 plus half the received percent,
  so over any sequence of \<open>conversionProgress\<close> events the percent shown never
  decreases.
\<close>

theorem client_clamps_percent:
  "published_percents (emitted (on_progress s p now)) =
     published_percents (emitted s) @ [percent p]
   \<and> published_percents2 (emitted2 (on_progress2 s2 jb p now2)) =
     published_percents2 (emitted2 s2) @
       [js_or (js_div (Math_round (js_mul (percent p) (Fin 100))) (Fin 100)) (Fin 0)]
   \<and> sorted (fe_percent prev # shown_percents prev ds)"
proof (intro conjI)
  show "published_percents (emitted (on_progress s p now)) =
          published_percents (emitted s) @ [percent p]"
    by (simp add: on_progress_def Let_def published_percents_append)
  show "published_percents2 (emitted2 (on_progress2 s2 jb p now2)) =
          published_percents2 (emitted2 s2) @
            [js_or (js_div (Math_round (js_mul (percent p) (Fin 100))) (Fin 100)) (Fin 0)]"
    by (simp add: on_progress2_def progress_data2_of_def Let_def published_percents2_append)
  show "sorted (fe_percent prev # shown_percents prev ds)"
    by (rule shown_percents_sorted)
qed


end
